theory Spec2Isabelle
  imports Complex_Main
begin

section \<open>Data model\<close>

text \<open>
  The analysis kernels of VessMorphoVis read a morphology: an ordered list of sections,
  each an ordered list of samples, each a 3D point with a radius. Coordinates and radii
  are Python floats in the source; here they are real numbers, so every statement below
  is about the exact arithmetic the formulas denote, not about rounding.

  The kernels that only read a morphology are functions of the values it holds. The
  correction pass writes the radius of Sample objects in place, and one Sample object may be
  held at several positions (a branch point belongs to several sections), so for that pass
  the samples live in a store and a section is the list of the references it holds.
\<close>

type_synonym vector = "real \<times> real \<times> real"

text \<open>
  Modelled from the spec: the vector type of the host (Blender's mathutils.Vector) is not
  part of the repository. The kernels use its subtraction and its \<open>length\<close> attribute,
  which the spec calls the Euclidean segment length.
\<close>

fun vec_sub :: "vector \<Rightarrow> vector \<Rightarrow> vector" where
  "vec_sub (x0, y0, z0) (x1, y1, z1) = (x0 - x1, y0 - y1, z0 - z1)"

fun vec_length :: "vector \<Rightarrow> real" where
  "vec_length (x, y, z) = sqrt (x * x + y * y + z * z)"

record Sample =
  point :: vector
  radius :: real

record Section =
  samples :: "Sample list"

record Morphology =
  sections_list :: "Section list"

datatype exn = ValueError | ZeroDivisionError | OSError

text \<open>Python's \<open>range(n)\<close>: the indices \<open>0, ..., n - 1\<close>, none when \<open>n \<le> 0\<close>.\<close>

definition py_range :: "int \<Rightarrow> nat list" where
  "py_range n = [0..<nat n]"

text \<open>Python's \<open>min\<close> and \<open>max\<close> of a list raise ValueError on the empty list.\<close>

definition py_min :: "real list \<Rightarrow> exn + real" where
  "py_min xs = (case xs of [] \<Rightarrow> Inl ValueError | x # ys \<Rightarrow> Inr (fold min ys x))"

definition py_max :: "real list \<Rightarrow> exn + real" where
  "py_max xs = (case xs of [] \<Rightarrow> Inl ValueError | x # ys \<Rightarrow> Inr (fold max ys x))"

text \<open>Python's \<open>sum\<close> of a list: a left-to-right accumulation from 0.\<close>

definition py_sum :: "real list \<Rightarrow> real" where
  "py_sum xs = fold (\<lambda>x acc. acc + x) xs 0"

text \<open>Float division raises ZeroDivisionError on a zero divisor.\<close>

definition py_div :: "real \<Rightarrow> real \<Rightarrow> exn + real" where
  "py_div a b = (if b = 0 then Inl ZeroDivisionError else Inr (a / b))"

section \<open>Sample statistics (vmv/analysis/kernels/samples.py)\<close>

definition compute_number_of_samples_in_section :: "Section \<Rightarrow> nat" where
  "compute_number_of_samples_in_section sec = length (samples sec)"

definition compute_total_of_number_samples_from_sections_list :: "Section list \<Rightarrow> nat" where
  "compute_total_of_number_samples_from_sections_list secs =
     fold (\<lambda>sec morphology_total_number_of_samples.
             morphology_total_number_of_samples + compute_number_of_samples_in_section sec)
          secs 0"

definition compute_number_of_samples_per_section_distribution :: "Morphology \<Rightarrow> nat list" where
  "compute_number_of_samples_per_section_distribution morphology_object =
     fold (\<lambda>i_section data. data @ [length (samples i_section)])
          (sections_list morphology_object) []"

definition compute_sample_radius_distribution :: "Morphology \<Rightarrow> real list" where
  "compute_sample_radius_distribution morphology_object =
     fold (\<lambda>i_section data.
             fold (\<lambda>i_sample data'. data' @ [radius i_sample]) (samples i_section) data)
          (sections_list morphology_object) []"

definition analyze_samples_with_zero_radii :: "real list \<Rightarrow> real \<Rightarrow> nat" where
  "analyze_samples_with_zero_radii radii_list epsilon =
     fold (\<lambda>r zero_radii_samples.
             if r < epsilon then zero_radii_samples + 1 else zero_radii_samples)
          radii_list 0"





definition analyze_samples_radii ::
    "Section list \<Rightarrow> real \<Rightarrow> exn + (real \<times> real \<times> real \<times> nat)" where
  "analyze_samples_radii secs epsilon =
     (let radii_list = concat (map (\<lambda>sec. map radius (samples sec)) secs);
          zero_radii = filter (\<lambda>r. r < epsilon) radii_list
      in case py_min radii_list of
           Inl e \<Rightarrow> Inl e
         | Inr minimum_sample_radius \<Rightarrow>
             (case py_max radii_list of
                Inl e \<Rightarrow> Inl e
              | Inr maximum_sample_radius \<Rightarrow>
                  (case py_div (py_sum radii_list) (1.0 * real (length radii_list)) of
                     Inl e \<Rightarrow> Inl e
                   | Inr average_sample_radius \<Rightarrow>
                       Inr (minimum_sample_radius, maximum_sample_radius,
                            average_sample_radius, length zero_radii))))"

section \<open>Section statistics (vmv/analysis/kernels/sections.py)\<close>

definition compute_section_length :: "Section \<Rightarrow> real" where
  "compute_section_length sec =
     fold (\<lambda>i section_length.
             let p0 = point (samples sec ! i);
                 p1 = point (samples sec ! (i + 1));
                 segment_length = vec_length (vec_sub p0 p1)
             in section_length + segment_length)
          (py_range (int (length (samples sec)) - 1)) 0"

text \<open>
  \<open>samples[-1]\<close> is the last sample; both index reads are inside the guard
  \<open>len(section.samples) > 1\<close>.
\<close>

definition is_short_section :: "Section \<Rightarrow> bool" where
  "is_short_section sec =
     (if length (samples sec) > 1 then
        (let diameters_sum =
               (radius (samples sec ! 0) + radius (samples sec ! (length (samples sec) - 1))) * 2;
             section_length = compute_section_length sec
         in if section_length < diameters_sum then True else False)
      else False)"

definition compute_number_of_short_sections :: "Section list \<Rightarrow> nat" where
  "compute_number_of_short_sections secs =
     fold (\<lambda>sec number_short_sections.
             if is_short_section sec then number_short_sections + 1 else number_short_sections)
          secs 0"

definition compute_section_surface_area :: "Section \<Rightarrow> real" where
  "compute_section_surface_area sec =
     (if length (samples sec) < 2 then 0
      else fold (\<lambda>i section_surface_area.
                   let p0 = point (samples sec ! i);
                       p1 = point (samples sec ! (i + 1));
                       r0 = radius (samples sec ! i);
                       r1 = radius (samples sec ! (i + 1));
                       segment_length = vec_length (vec_sub p0 p1);
                       r_sum = r0 + r1;
                       r_diff = r0 - r1;
                       segment_lateral_area =
                         pi * r_sum * sqrt ((r_diff * r_diff) + segment_length)
                   in section_surface_area
                        + (segment_lateral_area + pi * ((r0 * r0) + (r1 * r1))))
                (py_range (int (length (samples sec)) - 1)) 0)"

definition compute_section_volume :: "Section \<Rightarrow> real" where
  "compute_section_volume sec =
     (if length (samples sec) < 2 then 0
      else fold (\<lambda>i section_volume.
                   let p0 = point (samples sec ! i);
                       p1 = point (samples sec ! (i + 1));
                       r0 = radius (samples sec ! i);
                       r1 = radius (samples sec ! (i + 1))
                   in section_volume
                        + (1.0 / 3.0) * pi * vec_length (vec_sub p0 p1)
                            * (r0 * r0 + r0 * r1 + r1 * r1))
                (py_range (int (length (samples sec)) - 1)) 0)"

section \<open>File writers (vmv/file/writers/strings/strings.py)\<close>

text \<open>
  Modelled from the spec: the file system is the host's. A path either can be opened for
  writing or not (permission, missing directory); opening with mode \<open>'w'\<close> truncates,
  every \<open>write\<close> appends to the handle, and \<open>close\<close> leaves the written text as the
  file's content.
\<close>

record filesystem =
  contents :: "string \<rightharpoonup> string"
  writable :: "string \<Rightarrow> bool"

definition newline :: char where
  "newline = CHR 0x0A"

text \<open>
  Python's \<open>str\<close> is a builtin, so the writer takes it as the parameter \<open>str_of\<close>.
\<close>

definition write_distribution_to_file ::
    "('a \<Rightarrow> string) \<Rightarrow> 'a list \<Rightarrow> string \<Rightarrow> filesystem \<Rightarrow> exn + filesystem" where
  "write_distribution_to_file str_of distribution file_path fs =
     (if writable fs file_path then
        (let file_handle = fold (\<lambda>element written. written @ (str_of element @ [newline]))
                                distribution []
         in Inr (fs\<lparr>contents := (contents fs)(file_path \<mapsto> file_handle)\<rparr>))
      else Inl OSError)"

section \<open>The specification's vocabulary\<close>

text \<open>The segments of a section: its pairs of consecutive samples, in order.\<close>

definition segments :: "Section \<Rightarrow> (Sample \<times> Sample) list" where
  "segments sec = zip (samples sec) (tl (samples sec))"

definition euclidean_distance :: "Sample \<Rightarrow> Sample \<Rightarrow> real" where
  "euclidean_distance s0 s1 = vec_length (vec_sub (point s0) (point s1))"

text \<open>The surface area of one segment as the specification writes it.\<close>

definition spec_segment_surface_area :: "Sample \<Rightarrow> Sample \<Rightarrow> real" where
  "spec_segment_surface_area s0 s1 =
     pi * (radius s0 + radius s1)
        * sqrt ((radius s0 - radius s1)\<^sup>2 + (euclidean_distance s0 s1)\<^sup>2)
     + pi * ((radius s0)\<^sup>2 + (radius s1)\<^sup>2)"

definition spec_section_surface_area :: "Section \<Rightarrow> real" where
  "spec_section_surface_area sec =
     (if length (samples sec) < 2 then 0
      else sum_list (map (\<lambda>(s0, s1). spec_segment_surface_area s0 s1) (segments sec)))"

text \<open>The volume of one segment as the specification writes it: a frustum of a cone.\<close>

definition spec_segment_volume :: "Sample \<Rightarrow> Sample \<Rightarrow> real" where
  "spec_segment_volume s0 s1 =
     (pi / 3) * euclidean_distance s0 s1
       * ((radius s0)\<^sup>2 + radius s0 * radius s1 + (radius s1)\<^sup>2)"

text \<open>The full radius distribution: section order, then sample order.\<close>

definition radii_of :: "Section list \<Rightarrow> real list" where
  "radii_of secs = concat (map (\<lambda>sec. map radius (samples sec)) secs)"




text \<open>
  Reading a text file back line by line: every line ends at its terminator, which is
  not part of the line; text after the last terminator is a last line.
\<close>

fun read_lines_from :: "string \<Rightarrow> string \<Rightarrow> string list" where
  "read_lines_from line [] = (if line = [] then [] else [line])"
| "read_lines_from line (c # cs) =
     (if c = newline then line # read_lines_from [] cs
      else read_lines_from (line @ [c]) cs)"

definition read_lines :: "string \<Rightarrow> string list" where
  "read_lines text = read_lines_from [] text"

text \<open>
  Python's \<open>str\<close> and \<open>int\<close> on the non-negative integers, the scalars of the
  samples-per-section distribution: decimal digits, most significant first.
\<close>

definition digit_char :: "nat \<Rightarrow> char" where
  "digit_char d = ''0123456789'' ! d"

definition digit_value :: "char \<Rightarrow> nat" where
  "digit_value c = of_char c - 48"

fun str_nat :: "nat \<Rightarrow> string" where
  "str_nat n = (if n < 10 then [digit_char n] else str_nat (n div 10) @ [digit_char (n mod 10)])"

declare str_nat.simps [simp del]

definition int_of_str :: "string \<Rightarrow> nat" where
  "int_of_str s = fold (\<lambda>c n. 10 * n + digit_value c) s 0"

section \<open>Example inputs\<close>

text \<open>One straight segment of length 4 between two samples of radius 1.\<close>

definition straight_segment_of_length_4 :: Section where
  "straight_segment_of_length_4 =
     \<lparr>samples = [\<lparr>point = (0, 0, 0), radius = 1\<rparr>, \<lparr>point = (4, 0, 0), radius = 1\<rparr>]\<rparr>"

text \<open>Sections and a distribution on which the statements below are evaluated.\<close>

definition three_radii :: "Section list" where
  "three_radii =
     [\<lparr>samples = [\<lparr>point = (0, 0, 0), radius = 1 / 10000\<rparr>, \<lparr>point = (1, 0, 0), radius = 1 / 2\<rparr>]\<rparr>,
      \<lparr>samples = [\<lparr>point = (1, 0, 0), radius = 1\<rparr>]\<rparr>]"





definition samples_per_section_example :: "nat list" where
  "samples_per_section_example = [3, 120, 0]"

definition empty_disk :: filesystem where
  "empty_disk = \<lparr>contents = Map.empty, writable = (\<lambda>file_path. True)\<rparr>"

section \<open>Shared lemmas on the loops\<close>

lemma fold_append_one: "fold (\<lambda>x data. data @ [f x]) xs acc = acc @ map f xs"
  by (induction xs arbitrary: acc) simp_all

lemma fold_add_nat: "fold (\<lambda>x (acc::nat). acc + f x) xs a = a + sum_list (map f xs)"
  by (induction xs arbitrary: a) simp_all

lemma fold_add_real: "fold (\<lambda>x (acc::real). acc + f x) xs a = a + sum_list (map f xs)"
  by (induction xs arbitrary: a) simp_all

lemma radius_distribution_concat:
  "fold (\<lambda>i_section data.
           fold (\<lambda>i_sample data'. data' @ [radius i_sample]) (samples i_section) data)
        secs acc
   = acc @ concat (map (\<lambda>sec. map radius (samples sec)) secs)"
  by (induction secs arbitrary: acc) (simp_all add: fold_append_one)

lemma consecutive_index_map:
  "map (\<lambda>i. g (xs ! i) (xs ! (i + 1))) (py_range (int (length xs) - 1))
   = map (\<lambda>(a, b). g a b) (zip xs (tl xs))"
  by (rule nth_equalityI) (auto simp: py_range_def nth_tl)

lemma index_loop_sum:
  "fold (\<lambda>i (acc::real). acc + g (xs ! i) (xs ! (i + 1))) (py_range (int (length xs) - 1)) 0
   = sum_list (map (\<lambda>(a, b). g a b) (zip xs (tl xs)))"
  using consecutive_index_map [of g xs] fold_add_real [of "\<lambda>i. g (xs ! i) (xs ! (i + 1))" "py_range (int (length xs) - 1)" 0]
  by simp

lemma compute_section_length_segments:
  "compute_section_length sec
   = sum_list (map (\<lambda>(s0, s1). euclidean_distance s0 s1) (segments sec))"
  unfolding compute_section_length_def Let_def segments_def euclidean_distance_def
  by (rule index_loop_sum [of "\<lambda>a b. vec_length (vec_sub (point a) (point b))"])

lemma sqrt_25: "sqrt 25 = 5"
  using real_sqrt_abs [of 5] by simp

section \<open>Section length\<close>

text \<open>
  C5. compute_section_length returns the sum of the Euclidean distances between the
  consecutive samples of the section; it returns 0 for a section of 0 or 1 samples; a
  section with samples at (0,0,0) and (3,4,0) has length 5.
\<close>

theorem C5_section_length:
  "compute_section_length sec
     = sum_list (map (\<lambda>(s0, s1). euclidean_distance s0 s1) (segments sec))
   \<and> (length (samples sec) \<le> 1 \<longrightarrow> compute_section_length sec = 0)
   \<and> compute_section_length
        \<lparr>samples = [\<lparr>point = (0, 0, 0), radius = r0\<rparr>, \<lparr>point = (3, 4, 0), radius = r1\<rparr>]\<rparr> = 5"
proof (intro conjI impI)
  show "compute_section_length sec
     = sum_list (map (\<lambda>(s0, s1). euclidean_distance s0 s1) (segments sec))"
    by (rule compute_section_length_segments)
next
  assume "length (samples sec) \<le> 1"
  then have "py_range (int (length (samples sec)) - 1) = []"
    by (simp add: py_range_def)
  then show "compute_section_length sec = 0"
    by (simp add: compute_section_length_def)
next
  show "compute_section_length
        \<lparr>samples = [\<lparr>point = (0, 0, 0), radius = r0\<rparr>, \<lparr>point = (3, 4, 0), radius = r1\<rparr>]\<rparr> = 5"
    by (simp add: compute_section_length_def py_range_def sqrt_25)
qed

theorem C5_section_length_witness:
  "length (samples \<lparr>samples = [\<lparr>point = (1, 2, 3), radius = 1\<rparr>]\<rparr>) \<le> 1
   \<and> compute_section_length \<lparr>samples = [\<lparr>point = (1, 2, 3), radius = 1\<rparr>]\<rparr> = 0"
proof -
  have h: "length (samples \<lparr>samples = [\<lparr>point = (1, 2, 3), radius = 1\<rparr>]\<rparr>) \<le> 1"
    by simp
  from C5_section_length [of "\<lparr>samples = [\<lparr>point = (1, 2, 3), radius = 1\<rparr>]\<rparr>" 0 0] h
  show ?thesis by blast
qed

section \<open>Section volume\<close>

lemma short_sections_have_no_segment:
  "length (samples sec) < 2 \<Longrightarrow> segments sec = []"
  by (cases "samples sec") (simp_all add: segments_def)

lemma compute_section_volume_segments:
  "compute_section_volume sec
   = sum_list (map (\<lambda>(s0, s1). spec_segment_volume s0 s1) (segments sec))"
proof (cases "length (samples sec) < 2")
  case True
  then show ?thesis
    by (simp add: compute_section_volume_def short_sections_have_no_segment)
next
  case False
  have "compute_section_volume sec
        = sum_list (map (\<lambda>(s0, s1). (1.0 / 3.0) * pi * vec_length (vec_sub (point s0) (point s1))
                           * (radius s0 * radius s0 + radius s0 * radius s1 + radius s1 * radius s1))
                        (zip (samples sec) (tl (samples sec))))"
    using False unfolding compute_section_volume_def Let_def
    by (simp only: if_False
          index_loop_sum [of "\<lambda>s0 s1. (1.0 / 3.0) * pi * vec_length (vec_sub (point s0) (point s1))
                           * (radius s0 * radius s0 + radius s0 * radius s1 + radius s1 * radius s1)"])
  also have "\<dots> = sum_list (map (\<lambda>(s0, s1). spec_segment_volume s0 s1) (segments sec))"
    by (simp add: segments_def spec_segment_volume_def euclidean_distance_def power2_eq_square)
  finally show ?thesis .
qed

text \<open>
  C6. compute_section_volume returns the sum over the segments of the section of
  (pi/3) * L * (r0^2 + r0*r1 + r1^2), L the Euclidean length of the segment; it returns 0
  for a section of fewer than 2 samples; a single segment of length 2 with both radii 1
  has volume 2 * pi.
\<close>

theorem C6_section_volume:
  "compute_section_volume sec
     = sum_list (map (\<lambda>(s0, s1). spec_segment_volume s0 s1) (segments sec))
   \<and> (length (samples sec) < 2 \<longrightarrow> compute_section_volume sec = 0)
   \<and> (vec_length (vec_sub p0 p1) = 2 \<longrightarrow>
        compute_section_volume
          \<lparr>samples = [\<lparr>point = p0, radius = 1\<rparr>, \<lparr>point = p1, radius = 1\<rparr>]\<rparr> = 2 * pi)"
proof (intro conjI impI)
  show "compute_section_volume sec
     = sum_list (map (\<lambda>(s0, s1). spec_segment_volume s0 s1) (segments sec))"
    by (rule compute_section_volume_segments)
next
  assume "length (samples sec) < 2"
  then show "compute_section_volume sec = 0"
    by (simp add: compute_section_volume_def)
next
  assume "vec_length (vec_sub p0 p1) = 2"
  then show "compute_section_volume
          \<lparr>samples = [\<lparr>point = p0, radius = 1\<rparr>, \<lparr>point = p1, radius = 1\<rparr>]\<rparr> = 2 * pi"
    by (simp add: compute_section_volume_def py_range_def)
qed

lemma sqrt_4: "sqrt 4 = 2"
  using real_sqrt_abs [of 2] by simp

lemma sqrt_16: "sqrt 16 = 4"
  using real_sqrt_abs [of 4] by simp

theorem C6_section_volume_witness:
  "length (samples \<lparr>samples = []\<rparr>) < 2
   \<and> compute_section_volume \<lparr>samples = []\<rparr> = 0
   \<and> vec_length (vec_sub (0, 0, 0) (2, 0, 0)) = 2
   \<and> compute_section_volume
          \<lparr>samples = [\<lparr>point = (0, 0, 0), radius = 1\<rparr>, \<lparr>point = (2, 0, 0), radius = 1\<rparr>]\<rparr> = 2 * pi"
proof -
  have h1: "length (samples \<lparr>samples = []\<rparr>) < 2" by simp
  have h2: "vec_length (vec_sub (0, 0, 0) (2, 0, 0)) = 2" by (simp add: sqrt_4)
  from C6_section_volume [of "\<lparr>samples = []\<rparr>" "(0, 0, 0)" "(2, 0, 0)"] h1 h2
  show ?thesis by blast
qed

section \<open>Short sections\<close>

text \<open>
  C4. is_short_section holds exactly when the section has at least 2 samples and its
  length, as compute_section_length gives it, is strictly below twice the sum of the radii
  of its first and last samples; a section of two samples with radii 1 and 1 and length 1
  is short; a section of fewer than 2 samples is not.
\<close>

theorem C4_is_short_section:
  "(is_short_section sec \<longleftrightarrow>
      2 \<le> length (samples sec)
      \<and> compute_section_length sec
          < 2 * (radius (hd (samples sec)) + radius (last (samples sec))))
   \<and> (vec_length (vec_sub p0 p1) = 1 \<longrightarrow>
        is_short_section \<lparr>samples = [\<lparr>point = p0, radius = 1\<rparr>, \<lparr>point = p1, radius = 1\<rparr>]\<rparr>)
   \<and> (length (samples sec) < 2 \<longrightarrow> \<not> is_short_section sec)"
proof (intro conjI impI)
  show "is_short_section sec \<longleftrightarrow>
      2 \<le> length (samples sec)
      \<and> compute_section_length sec
          < 2 * (radius (hd (samples sec)) + radius (last (samples sec)))"
  proof (cases "length (samples sec) > 1")
    case True
    then have ne: "samples sec \<noteq> []" by auto
    have "hd (samples sec) = samples sec ! 0"
      using ne by (simp add: hd_conv_nth)
    moreover have "last (samples sec) = samples sec ! (length (samples sec) - 1)"
      using ne by (simp add: last_conv_nth)
    ultimately show ?thesis
      using True by (auto simp: is_short_section_def Let_def)
  next
    case False
    then show ?thesis by (simp add: is_short_section_def)
  qed
next
  assume "vec_length (vec_sub p0 p1) = 1"
  then show "is_short_section \<lparr>samples = [\<lparr>point = p0, radius = 1\<rparr>, \<lparr>point = p1, radius = 1\<rparr>]\<rparr>"
    by (simp add: is_short_section_def compute_section_length_def py_range_def)
next
  assume "length (samples sec) < 2"
  then show "\<not> is_short_section sec"
    by (simp add: is_short_section_def)
qed

theorem C4_is_short_section_witness:
  "vec_length (vec_sub (0, 0, 0) (1, 0, 0)) = 1
   \<and> is_short_section
       \<lparr>samples = [\<lparr>point = (0, 0, 0), radius = 1\<rparr>, \<lparr>point = (1, 0, 0), radius = 1\<rparr>]\<rparr>
   \<and> length (samples \<lparr>samples = [\<lparr>point = (0, 0, 0), radius = 5\<rparr>]\<rparr>) < 2
   \<and> \<not> is_short_section \<lparr>samples = [\<lparr>point = (0, 0, 0), radius = 5\<rparr>]\<rparr>"
proof -
  have h1: "vec_length (vec_sub (0, 0, 0) (1, 0, 0)) = 1" by simp
  have h2: "length (samples \<lparr>samples = [\<lparr>point = (0, 0, 0), radius = 5\<rparr>]\<rparr>) < 2" by simp
  from C4_is_short_section [of "\<lparr>samples = [\<lparr>point = (0, 0, 0), radius = 5\<rparr>]\<rparr>" "(0, 0, 0)" "(1, 0, 0)"] h1 h2
  show ?thesis by blast
qed

section \<open>Section surface area\<close>

text \<open>
  C1. The claim is that compute_section_surface_area returns the sum over the segments of
  pi*(r0+r1)*sqrt((r0-r1)^2 + L^2) + pi*(r0^2+r1^2). The source adds the segment length
  itself under the square root, not its square. On one segment of length 4 with both radii
  1 the source returns 6 * pi where the claimed formula gives 10 * pi.
\<close>

theorem C1_surface_area_unsquared_length:
  "compute_section_surface_area straight_segment_of_length_4 = 6 * pi
   \<and> spec_section_surface_area straight_segment_of_length_4 = 10 * pi
   \<and> compute_section_surface_area straight_segment_of_length_4
       \<noteq> spec_section_surface_area straight_segment_of_length_4"
proof -
  have code: "compute_section_surface_area straight_segment_of_length_4 = 6 * pi"
    by (simp add: compute_section_surface_area_def straight_segment_of_length_4_def py_range_def
          sqrt_16 sqrt_4)
  have spec: "spec_section_surface_area straight_segment_of_length_4 = 10 * pi"
    by (simp add: spec_section_surface_area_def straight_segment_of_length_4_def segments_def
          spec_segment_surface_area_def euclidean_distance_def sqrt_16)
  from code spec show ?thesis by simp
qed

section \<open>Radius summary\<close>

lemma py_min_Min: "xs \<noteq> [] \<Longrightarrow> py_min xs = Inr (Min (set xs))"
proof (cases xs)
  case (Cons x ys)
  then show ?thesis
    unfolding py_min_def by (simp only: list.case Min.set_eq_fold)
qed simp

lemma py_max_Max: "xs \<noteq> [] \<Longrightarrow> py_max xs = Inr (Max (set xs))"
proof (cases xs)
  case (Cons x ys)
  then show ?thesis
    unfolding py_max_def by (simp only: list.case Max.set_eq_fold)
qed simp

lemma py_sum_sum_list: "py_sum xs = sum_list xs"
  using fold_add_real [of "\<lambda>x. x" xs 0] by (simp add: py_sum_def)

lemma radii_of_samples: "radii_of secs = map radius (concat (map samples secs))"
  by (simp add: radii_of_def map_concat comp_def)

lemma analyze_samples_radii_nonempty:
  assumes "radii_of secs \<noteq> []"
  shows "analyze_samples_radii secs epsilon
         = Inr (Min (set (radii_of secs)), Max (set (radii_of secs)),
                sum_list (radii_of secs) / real (length (radii_of secs)),
                length (filter (\<lambda>r. r < epsilon) (radii_of secs)))"
  using assms
  unfolding analyze_samples_radii_def radii_of_def [symmetric] Let_def
  by (simp add: py_min_Min py_max_Max py_sum_sum_list py_div_def)

lemma analyze_samples_radii_empty:
  assumes "radii_of secs = []"
  shows "analyze_samples_radii secs epsilon = Inl ValueError"
  using assms
  unfolding analyze_samples_radii_def radii_of_def [symmetric] Let_def
  by (simp add: py_min_def)

text \<open>
  C7. On a sections list with at least one sample, analyze_samples_radii returns the
  minimum radius, the maximum radius, the sum of the radii divided by their count, and the
  number of radii strictly below epsilon, all over the full radius distribution in section
  order then sample order. On the radii 0.0001, 0.5, 1.0 with epsilon 0.001 it returns
  minimum 0.0001, maximum 1.0, mean 15001/30000 (within 0.0001 of 0.5) and zero count 1.
\<close>

theorem C7_analyze_samples_radii:
  "(concat (map samples secs) \<noteq> [] \<longrightarrow>
      analyze_samples_radii secs epsilon
        = Inr (Min (set (radii_of secs)), Max (set (radii_of secs)),
               sum_list (radii_of secs) / real (length (radii_of secs)),
               length (filter (\<lambda>r. r < epsilon) (radii_of secs))))
   \<and> (radii_of secs = [1 / 10000, 1 / 2, 1] \<longrightarrow>
        analyze_samples_radii secs (1 / 1000) = Inr (1 / 10000, 1, 15001 / 30000, 1)
        \<and> \<bar>15001 / 30000 - 1 / 2 :: real\<bar> < 1 / 10000)"
proof -
  have general: "concat (map samples secs) \<noteq> [] \<longrightarrow>
      analyze_samples_radii secs epsilon
        = Inr (Min (set (radii_of secs)), Max (set (radii_of secs)),
               sum_list (radii_of secs) / real (length (radii_of secs)),
               length (filter (\<lambda>r. r < epsilon) (radii_of secs)))"
    by (simp add: analyze_samples_radii_nonempty radii_of_samples)
  have example: "radii_of secs = [1 / 10000, 1 / 2, 1] \<longrightarrow>
        analyze_samples_radii secs (1 / 1000) = Inr (1 / 10000, 1, 15001 / 30000, 1)
        \<and> \<bar>15001 / 30000 - 1 / 2 :: real\<bar> < 1 / 10000"
  proof
    assume r: "radii_of secs = [1 / 10000, 1 / 2, 1]"
    then have "radii_of secs \<noteq> []" by simp
    then have "analyze_samples_radii secs (1 / 1000)
          = Inr (Min (set (radii_of secs)), Max (set (radii_of secs)),
                 sum_list (radii_of secs) / real (length (radii_of secs)),
                 length (filter (\<lambda>r. r < 1 / 1000) (radii_of secs)))"
      by (rule analyze_samples_radii_nonempty)
    then show "analyze_samples_radii secs (1 / 1000) = Inr (1 / 10000, 1, 15001 / 30000, 1)
          \<and> \<bar>15001 / 30000 - 1 / 2 :: real\<bar> < 1 / 10000"
      by (simp add: r)
  qed
  from general example show ?thesis by blast
qed

theorem C7_analyze_samples_radii_witness:
  "concat (map samples three_radii) \<noteq> []
   \<and> radii_of three_radii = [1 / 10000, 1 / 2, 1]
   \<and> analyze_samples_radii three_radii (1 / 1000) = Inr (1 / 10000, 1, 15001 / 30000, 1)"
proof -
  have h1: "concat (map samples three_radii) \<noteq> []"
    by (simp add: three_radii_def)
  have h2: "radii_of three_radii = [1 / 10000, 1 / 2, 1]"
    by (simp add: radii_of_def three_radii_def)
  from C7_analyze_samples_radii [of three_radii "1 / 1000"] h1 h2
  show ?thesis by blast
qed

text \<open>
  C8. On a sections list with no sample at all, analyze_samples_radii does not return a
  tuple: the minimum of the empty list raises ValueError before anything else is computed.
  It returns a tuple only when there is at least one sample.
\<close>

theorem C8_analyze_samples_radii_empty:
  "(concat (map samples secs) = [] \<longrightarrow> analyze_samples_radii secs epsilon = Inl ValueError)
   \<and> ((\<exists>result. analyze_samples_radii secs epsilon = Inr result)
        \<longrightarrow> concat (map samples secs) \<noteq> [])"
proof (intro conjI impI)
  assume "concat (map samples secs) = []"
  then have "radii_of secs = []"
    by (simp add: radii_of_samples)
  then show "analyze_samples_radii secs epsilon = Inl ValueError"
    by (rule analyze_samples_radii_empty)
next
  assume returns: "\<exists>result. analyze_samples_radii secs epsilon = Inr result"
  show "concat (map samples secs) \<noteq> []"
  proof
    assume "concat (map samples secs) = []"
    then have "radii_of secs = []"
      by (simp add: radii_of_samples)
    then have "analyze_samples_radii secs epsilon = Inl ValueError"
      by (rule analyze_samples_radii_empty)
    with returns show False by auto
  qed
qed

theorem C8_analyze_samples_radii_empty_witness:
  "concat (map samples [\<lparr>samples = []\<rparr>, \<lparr>samples = []\<rparr>]) = []
   \<and> analyze_samples_radii [\<lparr>samples = []\<rparr>, \<lparr>samples = []\<rparr>] (1 / 1000) = Inl ValueError
   \<and> (\<exists>result. analyze_samples_radii three_radii (1 / 1000) = Inr result)
   \<and> concat (map samples three_radii) \<noteq> []"
proof -
  have h1: "concat (map samples [\<lparr>samples = []\<rparr>, \<lparr>samples = []\<rparr>]) = []"
    by simp
  have "radii_of three_radii \<noteq> []"
    by (simp add: radii_of_def three_radii_def)
  then have h2: "\<exists>result. analyze_samples_radii three_radii (1 / 1000) = Inr result"
    using analyze_samples_radii_nonempty [of three_radii "1 / 1000"] by blast
  from C8_analyze_samples_radii_empty [of "[\<lparr>samples = []\<rparr>, \<lparr>samples = []\<rparr>]" "1 / 1000"] h1
  have a: "analyze_samples_radii [\<lparr>samples = []\<rparr>, \<lparr>samples = []\<rparr>] (1 / 1000) = Inl ValueError"
    by blast
  from C8_analyze_samples_radii_empty [of three_radii "1 / 1000"] h2
  have b: "concat (map samples three_radii) \<noteq> []"
    by blast
  from h1 h2 a b show ?thesis by blast
qed

section \<open>Zero-radius correction\<close>















section \<open>Writing a distribution\<close>

lemma fold_write:
  "fold (\<lambda>element written. written @ (str_of element @ [newline])) xs acc
   = acc @ concat (map (\<lambda>element. str_of element @ [newline]) xs)"
  by (induction xs arbitrary: acc) simp_all

lemma read_lines_from_line:
  "newline \<notin> set s \<Longrightarrow>
   read_lines_from line (s @ newline # rest) = (line @ s) # read_lines_from [] rest"
  by (induction s arbitrary: line) auto

lemma read_lines_written:
  "\<forall>element \<in> set xs. newline \<notin> set (str_of element) \<Longrightarrow>
   read_lines (concat (map (\<lambda>element. str_of element @ [newline]) xs)) = map str_of xs"
  unfolding read_lines_def
  by (induction xs) (simp_all add: read_lines_from_line)

text \<open>
  C9. On a path that can be opened for writing, write_distribution_to_file leaves as the
  file's content the concatenation, in input order, of the string form of each value
  followed by a line terminator. When no string form contains a line terminator and
  parsing a string form gives the value back, as \<open>str\<close> and the parsers of Python's
  scalars do, reading the file back line by line and parsing each line reproduces the
  distribution in order.
\<close>

theorem C9_write_distribution_round_trip:
  assumes "writable fs file_path"
  shows "\<exists>fs'. write_distribution_to_file str_of distribution file_path fs = Inr fs'
      \<and> contents fs' file_path
          = Some (concat (map (\<lambda>element. str_of element @ [newline]) distribution))
      \<and> ((\<forall>element \<in> set distribution.
             newline \<notin> set (str_of element) \<and> parse (str_of element) = element)
          \<longrightarrow> (\<exists>text. contents fs' file_path = Some text
                      \<and> map parse (read_lines text) = distribution))"
proof -
  let ?text = "concat (map (\<lambda>element. str_of element @ [newline]) distribution)"
  let ?fs' = "fs\<lparr>contents := (contents fs)(file_path \<mapsto> ?text)\<rparr>"
  have w: "write_distribution_to_file str_of distribution file_path fs = Inr ?fs'"
    using assms by (simp add: write_distribution_to_file_def fold_write)
  have c: "contents ?fs' file_path = Some ?text"
    by simp
  have r: "(\<forall>element \<in> set distribution.
             newline \<notin> set (str_of element) \<and> parse (str_of element) = element)
          \<longrightarrow> map parse (read_lines ?text) = distribution"
  proof
    assume h: "\<forall>element \<in> set distribution.
             newline \<notin> set (str_of element) \<and> parse (str_of element) = element"
    then have "read_lines ?text = map str_of distribution"
      by (simp add: read_lines_written)
    then show "map parse (read_lines ?text) = distribution"
      using h by (simp add: map_idI)
  qed
  from w c r show ?thesis by blast
qed

text \<open>The decimal form of a non-negative integer parses back and has no line terminator.\<close>

lemma digit_value_digit_char: "d < 10 \<Longrightarrow> digit_value (digit_char d) = d"
proof -
  assume "d < 10"
  then have "d \<in> {0, 1, 2, 3, 4, 5, 6, 7, 8, 9}" by auto
  then show ?thesis
    by (auto simp: digit_char_def digit_value_def)
qed

lemma digit_char_not_newline: "d < 10 \<Longrightarrow> digit_char d \<noteq> newline"
proof -
  assume "d < 10"
  then have "d \<in> {0, 1, 2, 3, 4, 5, 6, 7, 8, 9}" by auto
  then show ?thesis
    by (auto simp: digit_char_def newline_def)
qed

lemma int_of_str_snoc: "int_of_str (s @ [c]) = 10 * int_of_str s + digit_value c"
  by (simp add: int_of_str_def)

lemma int_of_str_str_nat: "int_of_str (str_nat n) = n"
proof (induction n rule: str_nat.induct)
  case (1 n)
  show ?case
  proof (cases "n < 10")
    case True
    then show ?thesis
      by (subst str_nat.simps) (simp add: int_of_str_def digit_value_digit_char)
  next
    case False
    with 1 show ?thesis
      by (subst str_nat.simps) (simp add: int_of_str_snoc digit_value_digit_char)
  qed
qed

lemma str_nat_no_newline: "newline \<notin> set (str_nat n)"
proof (induction n rule: str_nat.induct)
  case (1 n)
  show ?case
  proof (cases "n < 10")
    case True
    then show ?thesis
      by (subst str_nat.simps) (simp add: digit_char_not_newline [THEN not_sym])
  next
    case False
    with 1 show ?thesis
      by (subst str_nat.simps) (simp add: digit_char_not_newline [THEN not_sym])
  qed
qed

theorem C9_write_distribution_round_trip_witness:
  "writable empty_disk ''samples.txt''
   \<and> (\<exists>fs' text.
         write_distribution_to_file str_nat samples_per_section_example ''samples.txt'' empty_disk
           = Inr fs'
         \<and> contents fs' ''samples.txt'' = Some text
         \<and> map int_of_str (read_lines text) = samples_per_section_example)"
proof -
  have h1: "writable empty_disk ''samples.txt''"
    by (simp add: empty_disk_def)
  have h2: "\<forall>element \<in> set samples_per_section_example.
         newline \<notin> set (str_nat element) \<and> int_of_str (str_nat element) = element"
    by (simp add: str_nat_no_newline int_of_str_str_nat)
  from C9_write_distribution_round_trip
         [OF h1, of str_nat samples_per_section_example int_of_str] h1 h2
  show ?thesis by blast
qed

section \<open>Sample counts\<close>

text \<open>
  C10. The radius distribution of a morphology has one entry per sample: its length is
  the total that compute_total_of_number_samples_from_sections_list returns for the same
  sections list, and both are the sum of the sections' sample counts.
\<close>

theorem C10_radius_distribution_length:
  "length (compute_sample_radius_distribution morphology_object)
     = compute_total_of_number_samples_from_sections_list (sections_list morphology_object)
   \<and> compute_total_of_number_samples_from_sections_list (sections_list morphology_object)
     = sum_list (map (\<lambda>sec. length (samples sec)) (sections_list morphology_object))"
  by (simp add: compute_sample_radius_distribution_def radius_distribution_concat
        compute_total_of_number_samples_from_sections_list_def
        compute_number_of_samples_in_section_def fold_add_nat length_concat comp_def)

end
